theory Spec2Isabelle
  imports Complex_Main
begin

section \<open>Paper trading system: engine and order-block strategy\<close>

text \<open>
  A shallow embedding of \<^verbatim>\<open>paper_trading_engine.py\<close> and
  \<^verbatim>\<open>orderblock_strategy.py\<close>.

  Conventions of the embedding:
  \<^item> Python numbers are modelled as \<^typ>\<open>real\<close>: rounding of IEEE doubles is not
    modelled, and there are no infinities.
  \<^item> A cell of a pandas column that may hold NaN is a \<^typ>\<open>real option\<close>, with
    \<open>None\<close> for NaN.
  \<^item> Python's \<^verbatim>\<open>None\<close> result is \<open>None\<close>; a raised exception is \<open>Inl\<close> of an
    \<open>error\<close>. Division of Python numbers by zero raises \<^verbatim>\<open>ZeroDivisionError\<close>.
  \<^item> Methods that mutate \<^verbatim>\<open>self\<close> take the object and return the updated one.
  \<^item> Timestamps are opaque and modelled as natural numbers; log output is not modelled.
\<close>

datatype error = ZeroDivisionError | IndexError

subsection \<open>config.py\<close>

definition INITIAL_CAPITAL :: real where
  "INITIAL_CAPITAL = 100"

definition SLIPPAGE :: real where
  "SLIPPAGE = 5 / 10000"

definition COMMISSION :: real where
  "COMMISSION = 6 / 10000"

definition EMA_PERIOD :: nat where
  "EMA_PERIOD = 200"

subsection \<open>Records of the engine\<close>

text \<open>
  The signal dictionary. The strategy emits the keys \<^verbatim>\<open>type\<close>, \<^verbatim>\<open>entry_price\<close>,
  \<^verbatim>\<open>stop_loss\<close>, \<^verbatim>\<open>timestamp\<close> and \<^verbatim>\<open>ob_index\<close>; the fields carry the prefix
  \<open>sig_\<close> because the position dictionary has keys of the same names.
\<close>

record signal =
  sig_type :: string
  sig_entry_price :: real
  sig_stop_loss :: real
  sig_timestamp :: nat
  sig_ob_index :: int

text \<open>The position dictionary built by \<^verbatim>\<open>open_position\<close>; key \<^verbatim>\<open>type\<close> is \<open>ptype\<close>.\<close>

record position =
  ptype :: string
  entry_price :: real
  adj_entry_price :: real
  entry_time :: nat
  entry_capital :: real
  position_size :: real
  stop_loss :: real
  sl_percentage :: real
  trailing_stop_pct :: real
  entry_commission :: real

text \<open>
  The trade dictionary \<^verbatim>\<open>{**self.position, 'exit_price': ..., ...}\<close>: every key of the
  position and the exit keys. Key \<^verbatim>\<open>commission\<close> is \<open>trade_commission\<close> (the engine has
  an attribute \<^verbatim>\<open>commission\<close> of its own).
\<close>

record trade = position +
  exit_price :: real
  exit_time :: nat
  exit_capital :: real
  pnl :: real
  return_pct :: real
  return_multiplier :: real
  trade_commission :: real
  exit_reason :: string

text \<open>The attributes of \<^verbatim>\<open>PaperTradingEngine\<close>.\<close>

record engine =
  initial_capital :: real
  slippage :: real
  commission :: real
  capital :: real
  position :: "position option"
  equity_history :: "(nat \<times> real) list"
  trades :: "trade list"
  ema_200 :: "real option"

subsection \<open>PaperTradingEngine\<close>

text \<open>
  Python's \<^verbatim>\<open>x or d\<close> on an optional number: \<^verbatim>\<open>None\<close> and zero are falsy and give
  \<open>d\<close>, every other number gives itself.
\<close>

definition py_or :: "real option \<Rightarrow> real \<Rightarrow> real" where
  "py_or x d = (case x of None \<Rightarrow> d | Some v \<Rightarrow> if v = 0 then d else v)"

text \<open>\<^verbatim>\<open>__init__(self, initial_capital=None, slippage=None, commission=None)\<close>\<close>

definition PaperTradingEngine_init :: "real option \<Rightarrow> real option \<Rightarrow> real option \<Rightarrow> engine" where
  "PaperTradingEngine_init initial_capital_arg slippage_arg commission_arg =
     (let ic = py_or initial_capital_arg INITIAL_CAPITAL in
      \<lparr> initial_capital = ic,
        slippage = py_or slippage_arg SLIPPAGE,
        commission = py_or commission_arg COMMISSION,
        capital = ic,
        position = None,
        equity_history = [],
        trades = [],
        ema_200 = None \<rparr>)"

text \<open>\<^verbatim>\<open>get_current_equity(self, current_price=None)\<close>\<close>

definition get_current_equity :: "engine \<Rightarrow> real option \<Rightarrow> error + real" where
  "get_current_equity e current_price =
     (case position e of
        None \<Rightarrow> Inr (capital e)
      | Some p \<Rightarrow>
          (case current_price of
             None \<Rightarrow> Inr (capital e)
           | Some cp \<Rightarrow>
               if ptype p = ''long'' then
                 (let unrealized_exit_price = cp * (1 - slippage e) in
                  if adj_entry_price p = 0 then Inl ZeroDivisionError
                  else Inr (entry_capital p * (unrealized_exit_price / adj_entry_price p)
                            - entry_commission p))
               else
                 (let unrealized_exit_price = cp * (1 + slippage e) in
                  if unrealized_exit_price = 0 then Inl ZeroDivisionError
                  else Inr (entry_capital p * (adj_entry_price p / unrealized_exit_price)
                            - entry_commission p))))"

text \<open>
  \<^verbatim>\<open>df['equity'].ewm(span=s, adjust=False).mean()\<close> on a column without NaN: pandas
  carries the previous average through the column, starting from the first value, with
  \<open>\<alpha> = 2 / (s + 1)\<close>.
\<close>

fun ewm_from :: "real \<Rightarrow> real \<Rightarrow> real list \<Rightarrow> real list" where
  "ewm_from \<alpha> y [] = []"
| "ewm_from \<alpha> y (x # xs) = (let y' = (1 - \<alpha>) * y + \<alpha> * x in y' # ewm_from \<alpha> y' xs)"

definition ewm_mean :: "nat \<Rightarrow> real list \<Rightarrow> real list" where
  "ewm_mean span_n xs =
     (case xs of [] \<Rightarrow> [] | x # rest \<Rightarrow> x # ewm_from (2 / (real span_n + 1)) x rest)"

text \<open>\<^verbatim>\<open>calculate_ema_200(self)\<close>\<close>

definition calculate_ema_200 :: "engine \<Rightarrow> real option" where
  "calculate_ema_200 e =
     (if length (equity_history e) < 200 then None
      else (let equity_values = map snd (equity_history e)
            in Some (last (ewm_mean EMA_PERIOD equity_values))))"

text \<open>\<^verbatim>\<open>should_take_trade(self)\<close>: stores the average in \<^verbatim>\<open>self.ema_200\<close>.\<close>

definition should_take_trade :: "engine \<Rightarrow> error + (bool \<times> engine)" where
  "should_take_trade e =
     (let e' = e\<lparr>ema_200 := calculate_ema_200 e\<rparr> in
      case ema_200 e' of
        None \<Rightarrow> Inr (True, e')
      | Some m \<Rightarrow>
          (case get_current_equity e' None of
             Inl err \<Rightarrow> Inl err
           | Inr current_equity \<Rightarrow> Inr (current_equity > m, e')))"

text \<open>
  \<^verbatim>\<open>open_position(self, signal, timestamp)\<close>: the result is the copy of the new
  position, or \<open>None\<close> when the call is refused.
\<close>

definition open_position :: "engine \<Rightarrow> signal \<Rightarrow> nat \<Rightarrow> error + (position option \<times> engine)" where
  "open_position e sg ts =
     (if position e \<noteq> None then Inr (None, e)
      else
        (let trade_type = sig_type sg;
             entry = sig_entry_price sg;
             sl = sig_stop_loss sg;
             adj = (if trade_type = ''long'' then entry * (1 + slippage e)
                    else entry * (1 - slippage e))
         in if (if trade_type = ''long'' then adj \<le> sl else adj \<ge> sl) then Inr (None, e)
            else if adj = 0 then Inl ZeroDivisionError
            else
              (let size = capital e / adj;
                   entry_comm = size * adj * commission e;
                   capital_after_commission = capital e - entry_comm;
                   sl_pct = (if trade_type = ''long'' then (adj - sl) / adj else (sl - adj) / adj);
                   p = \<lparr> ptype = trade_type,
                         entry_price = entry,
                         adj_entry_price = adj,
                         entry_time = ts,
                         entry_capital = capital e,
                         position_size = size,
                         stop_loss = sl,
                         sl_percentage = sl_pct,
                         trailing_stop_pct = sl_pct * (75 / 100),
                         entry_commission = entry_comm \<rparr>
               in Inr (Some p, e\<lparr>position := Some p, capital := capital_after_commission\<rparr>))))"

text \<open>
  \<^verbatim>\<open>close_position(self, exit_price, timestamp, reason='manual')\<close>. The three divisions
  are by the adjusted entry price (long), the adjusted exit price (short) and the entry
  capital (\<^verbatim>\<open>return_pct\<close>).
\<close>

definition close_position :: "engine \<Rightarrow> real \<Rightarrow> nat \<Rightarrow> string \<Rightarrow> error + (trade option \<times> engine)" where
  "close_position e exit_px ts reason =
     (case position e of
        None \<Rightarrow> Inr (None, e)
      | Some p \<Rightarrow>
          (let long = (ptype p = ''long'');
               adj_exit_price = (if long then exit_px * (1 - slippage e)
                                 else exit_px * (1 + slippage e))
           in if (if long then adj_entry_price p = 0 else adj_exit_price = 0)
              then Inl ZeroDivisionError
              else
                (let mult = (if long then adj_exit_price / adj_entry_price p
                             else adj_entry_price p / adj_exit_price);
                     capital_after_slippage = entry_capital p * mult;
                     exit_commission = position_size p * adj_exit_price * commission e;
                     total_commission = entry_commission p + exit_commission;
                     final_capital = capital_after_slippage - exit_commission;
                     pnl_v = final_capital - entry_capital p
                 in if entry_capital p = 0 then Inl ZeroDivisionError
                    else
                      (let t = position.extend p
                                 \<lparr> exit_price = adj_exit_price,
                                   exit_time = ts,
                                   exit_capital = final_capital,
                                   pnl = pnl_v,
                                   return_pct = (pnl_v / entry_capital p) * 100,
                                   return_multiplier = mult,
                                   trade_commission = total_commission,
                                   exit_reason = reason \<rparr>
                       in Inr (Some t, e\<lparr>capital := final_capital,
                                          trades := trades e @ [t],
                                          position := None\<rparr>)))))"

text \<open>
  \<^verbatim>\<open>update_position(self, current_price, timestamp)\<close>: trail the stop, then test the
  exit against the stop just stored.
\<close>

definition update_position :: "engine \<Rightarrow> real \<Rightarrow> nat \<Rightarrow> error + (trade option \<times> engine)" where
  "update_position e current_price ts =
     (case position e of
        None \<Rightarrow> Inr (None, e)
      | Some p \<Rightarrow>
          if ptype p = ''long'' then
            (let trail_price = current_price * (1 - trailing_stop_pct p);
                 p' = (if trail_price > stop_loss p then p\<lparr>stop_loss := trail_price\<rparr> else p);
                 e' = e\<lparr>position := Some p'\<rparr>
             in if current_price \<le> stop_loss p'
                then close_position e' (stop_loss p') ts ''stop_loss''
                else Inr (None, e'))
          else
            (let trail_price = current_price * (1 + trailing_stop_pct p);
                 p' = (if trail_price < stop_loss p then p\<lparr>stop_loss := trail_price\<rparr> else p);
                 e' = e\<lparr>position := Some p'\<rparr>
             in if current_price \<ge> stop_loss p'
                then close_position e' (stop_loss p') ts ''stop_loss''
                else Inr (None, e')))"

text \<open>\<^verbatim>\<open>record_equity(self, timestamp, current_price=None)\<close>\<close>

definition record_equity :: "engine \<Rightarrow> nat \<Rightarrow> real option \<Rightarrow> error + engine" where
  "record_equity e ts current_price =
     (case get_current_equity e current_price of
        Inl err \<Rightarrow> Inl err
      | Inr equity \<Rightarrow> Inr (e\<lparr>equity_history := equity_history e @ [(ts, equity)]\<rparr>))"

subsection \<open>Data of the strategy\<close>

text \<open>
  One OHLCV row of the data frame handed to \<^verbatim>\<open>calculate_indicators\<close>: the columns
  \<^verbatim>\<open>timestamp\<close>, \<^verbatim>\<open>open\<close>, \<^verbatim>\<open>high\<close>, \<^verbatim>\<open>low\<close>, \<^verbatim>\<open>close\<close>, \<^verbatim>\<open>volume\<close> (prefix
  \<open>c_\<close>), without NaN.
\<close>

record candle =
  c_timestamp :: nat
  c_open :: real
  c_high :: real
  c_low :: real
  c_close :: real
  c_volume :: real

text \<open>A row of the frame that \<^verbatim>\<open>calculate_indicators\<close> returns: the candle and the
  columns added to it (\<^verbatim>\<open>pc\<close>, \<^verbatim>\<open>volume_ma\<close>, ...), each of which may hold NaN.\<close>

record row = candle +
  pc :: "real option"
  volume_ma :: "real option"
  volume_percentile :: "real option"
  sma20 :: "real option"
  sma50 :: "real option"
  tr :: "real option"
  atr :: "real option"
  expanding_avg_atr :: "real option"
  roc :: "real option"

text \<open>The attributes of \<^verbatim>\<open>OrderBlockStrategy\<close>.\<close>

record strategy =
  sensitivity :: real
  min_volume_percentile :: real
  trend_period :: nat
  min_trades_distance :: int
  last_trade_index :: int

subsection \<open>pandas and numpy operations on columns\<close>

text \<open>
  Arithmetic on cells: NaN in, NaN out. A division by zero, which IEEE arithmetic
  answers with an infinity or NaN, is answered here with \<open>None\<close> (the embedding has no
  infinities).
\<close>

definition lift2 :: "(real \<Rightarrow> real \<Rightarrow> real) \<Rightarrow> real option \<Rightarrow> real option \<Rightarrow> real option" where
  "lift2 f a b =
     (case a of None \<Rightarrow> None | Some x \<Rightarrow> (case b of None \<Rightarrow> None | Some y \<Rightarrow> Some (f x y)))"

definition fdiv :: "real option \<Rightarrow> real option \<Rightarrow> real option" where
  "fdiv a b =
     (case a of None \<Rightarrow> None
      | Some x \<Rightarrow> (case b of None \<Rightarrow> None
                   | Some y \<Rightarrow> if y = 0 then None else Some (x / y)))"

text \<open>A comparison of cells: false as soon as one side is NaN.\<close>

definition fcmp :: "(real \<Rightarrow> real \<Rightarrow> bool) \<Rightarrow> real option \<Rightarrow> real option \<Rightarrow> bool" where
  "fcmp rel a b =
     (case a of None \<Rightarrow> False | Some x \<Rightarrow> (case b of None \<Rightarrow> False | Some y \<Rightarrow> rel x y))"

text \<open>\<^verbatim>\<open>series.shift(k)\<close>: the column moved down by \<open>k\<close> rows, NaN in the first \<open>k\<close>.\<close>

definition shift :: "nat \<Rightarrow> real option list \<Rightarrow> real option list" where
  "shift k xs = take (length xs) (replicate k None @ xs)"

text \<open>
  \<^verbatim>\<open>series.rolling(window=w).mean()\<close>: \<^verbatim>\<open>min_periods\<close> defaults to the window, so
  row \<open>i\<close> holds the mean of rows \<open>i - w + 1\<close> to \<open>i\<close> when all \<open>w\<close> of them exist and none
  is NaN, and NaN otherwise.
\<close>

definition rolling_mean :: "nat \<Rightarrow> real option list \<Rightarrow> real option list" where
  "rolling_mean w xs =
     map (\<lambda>i. if w = 0 \<or> Suc i < w then None
              else (case those (drop (Suc i - w) (take (Suc i) xs)) of
                      None \<Rightarrow> None
                    | Some vs \<Rightarrow> Some (sum_list vs / real w)))
         [0..<length xs]"

text \<open>
  \<^verbatim>\<open>series.expanding().apply(f, raw=False)\<close>: \<^verbatim>\<open>min_periods\<close> is 1, so row \<open>i\<close> holds
  \<open>f\<close> of rows \<open>0\<close> to \<open>i\<close> (NaN cells included) when at least one of them is not NaN, and
  NaN otherwise.
\<close>

definition expanding_apply ::
  "(real option list \<Rightarrow> real option) \<Rightarrow> real option list \<Rightarrow> real option list" where
  "expanding_apply f xs =
     map (\<lambda>i. let win = take (Suc i) xs
              in if list_ex (\<lambda>v. v \<noteq> None) win then f win else None)
         [0..<length xs]"

text \<open>\<^verbatim>\<open>series.mean()\<close>: NaN cells are skipped; the mean of no value is NaN.\<close>

definition series_mean :: "real option list \<Rightarrow> real option" where
  "series_mean xs =
     (let vs = List.map_filter id xs
      in if vs = [] then None else Some (sum_list vs / real (length vs)))"

subsection \<open>OrderBlockStrategy\<close>

text \<open>\<^verbatim>\<open>__init__(self, sensitivity, min_volume_percentile, trend_period,
  min_trades_distance)\<close>\<close>

definition OrderBlockStrategy_init :: "real \<Rightarrow> real \<Rightarrow> nat \<Rightarrow> int \<Rightarrow> strategy" where
  "OrderBlockStrategy_init sens mvp tp mtd =
     \<lparr> sensitivity = sens, min_volume_percentile = mvp, trend_period = tp,
       min_trades_distance = mtd, last_trade_index = - mtd \<rparr>"

text \<open>The local function \<^verbatim>\<open>calc_volume_percentile(series)\<close> of \<^verbatim>\<open>calculate_indicators\<close>.\<close>

definition calc_volume_percentile :: "real option list \<Rightarrow> real option" where
  "calc_volume_percentile series =
     (if length series < 2 then Some 50
      else (let current_vol = last series;
                past_vols = butlast series
            in Some (real (length (filter (\<lambda>v. fcmp (>) current_vol v) past_vols))
                     / real (length past_vols) * 100)))"

text \<open>The lambda \<^verbatim>\<open>lambda x: x[:-1].mean() if len(x) > 1 else np.nan\<close>.\<close>

definition expanding_prior_mean :: "real option list \<Rightarrow> real option" where
  "expanding_prior_mean x = (if length x > 1 then series_mean (butlast x) else None)"

text \<open>The expression \<^verbatim>\<open>(col - col.shift(k)) / col.shift(k) * 100\<close> of \<^verbatim>\<open>pc\<close> and
  \<^verbatim>\<open>roc\<close>.\<close>

definition pct_change_over :: "nat \<Rightarrow> real option list \<Rightarrow> real option list" where
  "pct_change_over k xs =
     map (\<lambda>v. lift2 (*) v (Some 100))
         (map2 fdiv (map2 (lift2 (-)) xs (shift k xs)) (shift k xs))"

text \<open>The expression of \<^verbatim>\<open>tr\<close>: \<^verbatim>\<open>np.maximum\<close> and \<^verbatim>\<open>abs\<close> propagate NaN.\<close>

definition true_range ::
  "real option list \<Rightarrow> real option list \<Rightarrow> real option list \<Rightarrow> real option list" where
  "true_range highs lows closes =
     map2 (lift2 max)
       (map2 (lift2 (-)) highs lows)
       (map2 (lift2 max)
          (map (map_option abs) (map2 (lift2 (-)) highs (shift 1 closes)))
          (map (map_option abs) (map2 (lift2 (-)) lows (shift 1 closes))))"

text \<open>\<^verbatim>\<open>calculate_indicators(self, df)\<close>\<close>

definition calculate_indicators :: "strategy \<Rightarrow> candle list \<Rightarrow> row list" where
  "calculate_indicators s df =
     (let opens = map (Some \<circ> c_open) df;
          highs = map (Some \<circ> c_high) df;
          lows = map (Some \<circ> c_low) df;
          closes = map (Some \<circ> c_close) df;
          volumes = map (Some \<circ> c_volume) df;
          pc_col = pct_change_over 4 opens;
          volume_ma_col = shift 1 (rolling_mean 20 volumes);
          volume_percentile_col = expanding_apply calc_volume_percentile volumes;
          sma20_col = shift 1 (rolling_mean (trend_period s) closes);
          sma50_col = shift 1 (rolling_mean 50 closes);
          tr_col = true_range highs lows closes;
          atr_col = shift 1 (rolling_mean 14 tr_col);
          expanding_avg_atr_col = expanding_apply expanding_prior_mean atr_col;
          roc_col = pct_change_over 10 closes
      in map (\<lambda>i. candle.extend (df ! i)
                  \<lparr> pc = pc_col ! i,
                    volume_ma = volume_ma_col ! i,
                    volume_percentile = volume_percentile_col ! i,
                    sma20 = sma20_col ! i,
                    sma50 = sma50_col ! i,
                    tr = tr_col ! i,
                    atr = atr_col ! i,
                    expanding_avg_atr = expanding_avg_atr_col ! i,
                    roc = roc_col ! i \<rparr>)
             [0..<length df])"

text \<open>
  \<^verbatim>\<open>is_valid_trade_condition(self, df, idx, trade_type)\<close>, for an index inside the
  frame (its caller has read row \<open>idx\<close> before).
\<close>

definition is_valid_trade_condition :: "strategy \<Rightarrow> row list \<Rightarrow> nat \<Rightarrow> string \<Rightarrow> bool" where
  "is_valid_trade_condition s df idx trade_type =
     (let r = df ! idx in
      if int idx - last_trade_index s < min_trades_distance s then False
      else (case volume_percentile r of
              None \<Rightarrow> False
            | Some vp \<Rightarrow>
                if vp < min_volume_percentile s then False
                else (case (sma20 r, sma50 r, roc r) of
                        (Some a, Some b, Some m) \<Rightarrow>
                          if \<not> (if trade_type = ''long'' then a > b \<and> m > 0 else a < b \<and> m < 0)
                          then False
                          else (case (atr r, expanding_avg_atr r) of
                                  (Some current_atr, Some avg_atr) \<Rightarrow>
                                    if current_atr > avg_atr * (15 / 10) then False else True
                                | _ \<Rightarrow> False)
                      | _ \<Rightarrow> False)))"

text \<open>\<^verbatim>\<open>range(start, stop, -1)\<close>: from \<open>start\<close> down to \<open>stop + 1\<close>.\<close>

definition py_range_down :: "int \<Rightarrow> int \<Rightarrow> int list" where
  "py_range_down start stop = map (\<lambda>k. start - int k) [0..<nat (start - stop)]"

text \<open>
  The \<^verbatim>\<open>for j in range(...)\<close> loops of \<^verbatim>\<open>detect_signal\<close>, over the indices still to
  visit: the first bearish candle whose low is below the current close (long), the first
  bullish candle whose high is above it (short).
\<close>

fun scan_long :: "row list \<Rightarrow> nat \<Rightarrow> int list \<Rightarrow> int option" where
  "scan_long df idx [] = None"
| "scan_long df idx (j # js) =
     (if c_close (df ! nat j) < c_open (df ! nat j) \<and> c_close (df ! idx) > c_low (df ! nat j)
      then Some j else scan_long df idx js)"

fun scan_short :: "row list \<Rightarrow> nat \<Rightarrow> int list \<Rightarrow> int option" where
  "scan_short df idx [] = None"
| "scan_short df idx (j # js) =
     (if c_close (df ! nat j) > c_open (df ! nat j) \<and> c_close (df ! idx) < c_high (df ! nat j)
      then Some j else scan_short df idx js)"

text \<open>
  \<^verbatim>\<open>detect_signal(self, df, idx)\<close>: the signal, if any, and the strategy with its
  \<^verbatim>\<open>last_trade_index\<close>. Reading row \<open>idx\<close> beyond the frame raises \<^verbatim>\<open>IndexError\<close>.
\<close>

definition detect_signal :: "strategy \<Rightarrow> row list \<Rightarrow> int \<Rightarrow> error + (signal option \<times> strategy)" where
  "detect_signal s df idx =
     (if idx < 50 then Inr (None, s)
      else if idx \<ge> int (length df) then Inl IndexError
      else
        (let i = nat idx;
             pc_v = pc (df ! i);
             prev_pc = pc (df ! (i - 1));
             current_price = c_close (df ! i)
         in if is_valid_trade_condition s df i ''long''
               \<and> (fcmp (<) prev_pc (Some (sensitivity s)) \<and> fcmp (\<ge>) pc_v (Some (sensitivity s)))
            then (case scan_long df i (py_range_down (idx - 4) (max (idx - 16) (- 1))) of
                    None \<Rightarrow> Inr (None, s)
                  | Some j \<Rightarrow>
                      Inr (Some \<lparr> sig_type = ''long'', sig_entry_price = current_price,
                                  sig_stop_loss = c_low (df ! nat j),
                                  sig_timestamp = c_timestamp (df ! i), sig_ob_index = j \<rparr>,
                           s\<lparr>last_trade_index := idx\<rparr>))
            else if is_valid_trade_condition s df i ''short''
               \<and> (fcmp (>) prev_pc (Some (- sensitivity s)) \<and> fcmp (\<le>) pc_v (Some (- sensitivity s)))
            then (case scan_short df i (py_range_down (idx - 4) (max (idx - 16) (- 1))) of
                    None \<Rightarrow> Inr (None, s)
                  | Some j \<Rightarrow>
                      Inr (Some \<lparr> sig_type = ''short'', sig_entry_price = current_price,
                                  sig_stop_loss = c_high (df ! nat j),
                                  sig_timestamp = c_timestamp (df ! i), sig_ob_index = j \<rparr>,
                           s\<lparr>last_trade_index := idx\<rparr>))
            else Inr (None, s)))"

subsection \<open>Call sequences on the engine\<close>

text \<open>
  Successive \<^verbatim>\<open>update_position\<close> calls, one per tick (price, timestamp), none of which
  closes the position or raises: the engine after each call. The result is \<open>None\<close> as
  soon as one call returns a trade or raises.
\<close>

fun update_run :: "engine \<Rightarrow> (real \<times> nat) list \<Rightarrow> engine list option" where
  "update_run e [] = Some []"
| "update_run e ((cp, ts) # rest) =
     (case update_position e cp ts of
        Inr (None, e') \<Rightarrow> map_option (Cons e') (update_run e' rest)
      | _ \<Rightarrow> None)"

text \<open>The stop-loss values of the positions held in a list of engine states.\<close>

definition stops :: "engine list \<Rightarrow> real list" where
  "stops es = map stop_loss (List.map_filter position es)"

text \<open>
  \<open>holding e e'\<close>: \<open>e'\<close> is reached from \<open>e\<close> by method calls none of which opens or
  closes a position: \<^verbatim>\<open>update_position\<close> returning no trade, \<^verbatim>\<open>record_equity\<close>,
  \<^verbatim>\<open>should_take_trade\<close>, and \<^verbatim>\<open>open_position\<close> calls that are refused.
\<close>

inductive holding :: "engine \<Rightarrow> engine \<Rightarrow> bool" where
  holding_refl: "holding e e"
| holding_update: "holding e e1 \<Longrightarrow> update_position e1 cp ts = Inr (None, e2) \<Longrightarrow> holding e e2"
| holding_record: "holding e e1 \<Longrightarrow> record_equity e1 ts cpo = Inr e2 \<Longrightarrow> holding e e2"
| holding_gate: "holding e e1 \<Longrightarrow> should_take_trade e1 = Inr (b, e2) \<Longrightarrow> holding e e2"
| holding_refused: "holding e e1 \<Longrightarrow> open_position e1 sg ts = Inr (None, e2) \<Longrightarrow> holding e e2"

text \<open>
  The round trip of \<^verbatim>\<open>test_paper_trading\<close>: \<^verbatim>\<open>open_position\<close>, then
  \<^verbatim>\<open>close_position\<close> on the resulting engine.
\<close>

definition round_trip ::
  "engine \<Rightarrow> signal \<Rightarrow> nat \<Rightarrow> real \<Rightarrow> nat \<Rightarrow> string \<Rightarrow> error + (trade option \<times> engine)" where
  "round_trip e sg t0 x t1 reason =
     (case open_position e sg t0 of
        Inl err \<Rightarrow> Inl err
      | Inr (_, e1) \<Rightarrow> close_position e1 x t1 reason)"

text \<open>The realized P&L of the trade a call returned, if it returned one.\<close>

definition result_pnl :: "error + (trade option \<times> engine) \<Rightarrow> real option" where
  "result_pnl r = (case r of Inr (Some t, _) \<Rightarrow> Some (pnl t) | _ \<Rightarrow> None)"

subsection \<open>The exponential moving average, as a recurrence\<close>

text \<open>
  The unadjusted exponential moving average at index \<open>t\<close> of a series:
  \<open>y\<^sub>0 = x\<^sub>0\<close> and \<open>y\<^sub>t = (1 - \<alpha>) y\<^sub>t\<^sub>-\<^sub>1 + \<alpha> x\<^sub>t\<close>.
\<close>

fun ema_rec :: "real \<Rightarrow> real list \<Rightarrow> nat \<Rightarrow> real" where
  "ema_rec \<alpha> xs 0 = xs ! 0"
| "ema_rec \<alpha> xs (Suc t) = (1 - \<alpha>) * ema_rec \<alpha> xs t + \<alpha> * xs ! Suc t"

subsection \<open>Example data\<close>

text \<open>The engine and the signal of \<^verbatim>\<open>test_paper_trading\<close>, and variations of them.\<close>

definition demo_engine :: engine where
  "demo_engine = PaperTradingEngine_init (Some 100) None None"

definition zero_cost_engine :: engine where
  "zero_cost_engine = demo_engine\<lparr>slippage := 0, commission := 0\<rparr>"

definition long_signal :: signal where
  "long_signal = \<lparr> sig_type = ''long'', sig_entry_price = 3000, sig_stop_loss = 2950,
                   sig_timestamp = 0, sig_ob_index = 0 \<rparr>"

definition short_signal :: signal where
  "short_signal = \<lparr> sig_type = ''short'', sig_entry_price = 100, sig_stop_loss = 110,
                    sig_timestamp = 0, sig_ob_index = 0 \<rparr>"

definition full_history_engine :: engine where
  "full_history_engine = demo_engine\<lparr>equity_history := replicate 200 (0, 90)\<rparr>"

text \<open>The engines holding the position opened from \<open>long_signal\<close> and from \<open>short_signal\<close>.\<close>

definition engine_after_open :: "engine \<Rightarrow> signal \<Rightarrow> engine" where
  "engine_after_open e sg = (case open_position e sg 0 of Inr (_, e1) \<Rightarrow> e1 | Inl _ \<Rightarrow> e)"

definition long_engine :: engine where
  "long_engine = engine_after_open demo_engine long_signal"

definition short_engine :: engine where
  "short_engine = engine_after_open demo_engine short_signal"

text \<open>
  The strategy with the default arguments of its constructor, and a frame of 51 rising
  candles with a jump of the open in the last one. Candle \<open>k\<close> opens at 200 and is then
  the only bearish candle of the frame; its low, 90, is below the last close, 150.
\<close>

definition default_strategy :: strategy where
  "default_strategy = OrderBlockStrategy_init (15 / 1000) 50 20 10"

definition ob_candles :: "nat \<Rightarrow> candle list" where
  "ob_candles k =
     map (\<lambda>i. \<lparr> c_timestamp = i,
                c_open = (if i = k then 200 else if i = 50 then 101 else 100),
                c_high = 210, c_low = 90,
                c_close = 100 + real i,
                c_volume = (if i = 50 then 2000 else 1000) \<rparr>)
         [0..<51]"

subsection \<open>Notions used in the statements on the indicators\<close>

text \<open>
  A column operation is causal when its result has one row per input row and the rows
  it computes for a frame do not change when rows are appended to the frame.
\<close>

definition causal :: "('a list \<Rightarrow> 'b list) \<Rightarrow> bool" where
  "causal F \<longleftrightarrow> (\<forall>xs ys. length (F xs) = length xs \<and> take (length xs) (F (xs @ ys)) = F xs)"

text \<open>The column \<^verbatim>\<open>atr\<close> as \<^verbatim>\<open>calculate_indicators\<close> computes it.\<close>

definition atr_col :: "candle list \<Rightarrow> real option list" where
  "atr_col df =
     shift 1 (rolling_mean 14
       (true_range (map (Some \<circ> c_high) df) (map (Some \<circ> c_low) df) (map (Some \<circ> c_close) df)))"

section \<open>Properties of the engine\<close>

subsection \<open>Evaluation of the example data\<close>

lemmas engine_defs =
  PaperTradingEngine_init_def py_or_def INITIAL_CAPITAL_def SLIPPAGE_def COMMISSION_def
  demo_engine_def zero_cost_engine_def

lemma demo_engine_eval:
  "demo_engine = \<lparr> initial_capital = 100, slippage = 5 / 10000, commission = 6 / 10000,
       capital = 100, position = None, equity_history = [], trades = [], ema_200 = None \<rparr>"
  by (simp add: engine_defs)

lemma long_engine_eval:
  "open_position demo_engine long_signal 0 = Inr (position long_engine, long_engine)
   \<and> position long_engine \<noteq> None
   \<and> map_option ptype (position long_engine) = Some ''long''
   \<and> map_option stop_loss (position long_engine) = Some 2950
   \<and> map_option trailing_stop_pct (position long_engine) = Some (103 / 8004)
   \<and> slippage long_engine = 5 / 10000 \<and> commission long_engine = 6 / 10000
   \<and> capital long_engine = 100 - 6 / 100"
  by (simp add: long_engine_def engine_after_open_def open_position_def demo_engine_eval
      long_signal_def Let_def)

lemma short_engine_eval:
  "open_position demo_engine short_signal 0 = Inr (position short_engine, short_engine)
   \<and> position short_engine \<noteq> None
   \<and> map_option ptype (position short_engine) = Some ''short''
   \<and> map_option stop_loss (position short_engine) = Some 110"
  by (simp add: short_engine_def engine_after_open_def open_position_def demo_engine_eval
      short_signal_def Let_def)

subsection \<open>What a successful call returns\<close>

lemma open_position_SomeD:
  assumes "open_position e sg ts = Inr (Some p, e1)"
  shows "position e = None"
    and "adj_entry_price p \<noteq> 0"
    and "adj_entry_price p = (if sig_type sg = ''long'' then sig_entry_price sg * (1 + slippage e)
                              else sig_entry_price sg * (1 - slippage e))"
    and "ptype p = sig_type sg"
    and "entry_capital p = capital e"
    and "position_size p = capital e / adj_entry_price p"
    and "entry_commission p = position_size p * adj_entry_price p * commission e"
    and "stop_loss p = sig_stop_loss sg"
    and "e1 = e\<lparr>position := Some p, capital := capital e - entry_commission p\<rparr>"
  using assms
  by (auto simp: open_position_def Let_def split: if_splits)

lemma close_position_SomeD:
  assumes "close_position e x ts r = Inr (Some td, e')"
  obtains p where "position e = Some p"
    and "ptype td = ptype p \<and> entry_price td = entry_price p
         \<and> adj_entry_price td = adj_entry_price p
         \<and> entry_time td = entry_time p \<and> entry_capital td = entry_capital p
         \<and> position_size td = position_size p \<and> stop_loss td = stop_loss p
         \<and> sl_percentage td = sl_percentage p \<and> trailing_stop_pct td = trailing_stop_pct p
         \<and> entry_commission td = entry_commission p"
    and "exit_price td = (if ptype p = ''long'' then x * (1 - slippage e) else x * (1 + slippage e))"
    and "return_multiplier td = (if ptype p = ''long'' then exit_price td / adj_entry_price p
                                 else adj_entry_price p / exit_price td)"
    and "exit_capital td = entry_capital p * return_multiplier td
                           - position_size p * exit_price td * commission e"
    and "pnl td = exit_capital td - entry_capital p"
    and "trade_commission td = entry_commission p + position_size p * exit_price td * commission e"
    and "exit_reason td = r"
    and "e' = e\<lparr>capital := exit_capital td, trades := trades e @ [td], position := None\<rparr>"
proof (cases "position e")
  case None
  with assms show ?thesis by (simp add: close_position_def)
next
  case (Some p)
  show ?thesis
    apply (rule that[of p])
    using assms Some
    by (auto simp: close_position_def Let_def position.extend_def split: if_splits)
qed

lemma close_capital_irrelevant:
  "position e \<noteq> None \<Longrightarrow> close_position (e\<lparr>capital := c\<rparr>) x ts r = close_position e x ts r"
  by (auto simp: close_position_def Let_def split: option.splits)

subsection \<open>Constructor defaults\<close>

text \<open>
  C9. Passing 0 (or \<^verbatim>\<open>None\<close>) for \<^verbatim>\<open>initial_capital\<close>, \<^verbatim>\<open>slippage\<close> or
  \<^verbatim>\<open>commission\<close> does not set the attribute to 0: the \<^verbatim>\<open>or\<close> fallback substitutes the
  configured default (100, 0.0005, 0.0006). No argument list yields an engine whose
  initial capital, slippage or commission is zero.
\<close>

theorem constructor_zero_falls_back_to_default:
  "initial_capital (PaperTradingEngine_init (Some 0) s c) = 100
   \<and> capital (PaperTradingEngine_init (Some 0) s c) = 100
   \<and> slippage (PaperTradingEngine_init ic (Some 0) c) = 5 / 10000
   \<and> commission (PaperTradingEngine_init ic s (Some 0)) = 6 / 10000
   \<and> initial_capital (PaperTradingEngine_init None s c) = 100
   \<and> slippage (PaperTradingEngine_init ic None c) = 5 / 10000
   \<and> commission (PaperTradingEngine_init ic s None) = 6 / 10000
   \<and> initial_capital (PaperTradingEngine_init ic s c) \<noteq> 0
   \<and> slippage (PaperTradingEngine_init ic s c) \<noteq> 0
   \<and> commission (PaperTradingEngine_init ic s c) \<noteq> 0"
  by (simp add: PaperTradingEngine_init_def py_or_def INITIAL_CAPITAL_def SLIPPAGE_def
      COMMISSION_def Let_def split: option.splits)

subsection \<open>Refused calls\<close>

text \<open>
  C6. A refused lifecycle call returns nothing and returns the engine as it was:
  \<^verbatim>\<open>open_position\<close> while a position is open; \<^verbatim>\<open>open_position\<close> on a signal whose
  slippage-adjusted entry does not bracket the stop (long: adjusted entry at or below the
  stop; short: adjusted entry at or above it); \<^verbatim>\<open>close_position\<close> while no position is
  open.
\<close>

theorem rejected_operations_are_noops:
  "(position e1 \<noteq> None \<longrightarrow> open_position e1 sg1 t1 = Inr (None, e1))
   \<and> (sig_type sg2 = ''long'' \<and> sig_entry_price sg2 * (1 + slippage e2) \<le> sig_stop_loss sg2
        \<longrightarrow> open_position e2 sg2 t2 = Inr (None, e2))
   \<and> (sig_type sg3 \<noteq> ''long'' \<and> sig_entry_price sg3 * (1 - slippage e3) \<ge> sig_stop_loss sg3
        \<longrightarrow> open_position e3 sg3 t3 = Inr (None, e3))
   \<and> (position e4 = None \<longrightarrow> close_position e4 x t4 r = Inr (None, e4))"
  by (simp add: open_position_def close_position_def Let_def)

theorem rejected_operations_are_noops_witness:
  "open_position long_engine long_signal 5 = Inr (None, long_engine)
   \<and> open_position demo_engine (long_signal\<lparr>sig_stop_loss := 3100\<rparr>) 0 = Inr (None, demo_engine)
   \<and> open_position demo_engine (short_signal\<lparr>sig_stop_loss := 90\<rparr>) 0 = Inr (None, demo_engine)
   \<and> close_position demo_engine 3050 1 ''manual'' = Inr (None, demo_engine)"
proof -
  have h1: "position long_engine \<noteq> None" using long_engine_eval by blast
  have h2: "sig_type (long_signal\<lparr>sig_stop_loss := 3100\<rparr>) = ''long''
            \<and> sig_entry_price (long_signal\<lparr>sig_stop_loss := 3100\<rparr>) * (1 + slippage demo_engine)
               \<le> sig_stop_loss (long_signal\<lparr>sig_stop_loss := 3100\<rparr>)"
    by (simp add: long_signal_def demo_engine_eval)
  have h3: "sig_type (short_signal\<lparr>sig_stop_loss := 90\<rparr>) \<noteq> ''long''
            \<and> sig_entry_price (short_signal\<lparr>sig_stop_loss := 90\<rparr>) * (1 - slippage demo_engine)
               \<ge> sig_stop_loss (short_signal\<lparr>sig_stop_loss := 90\<rparr>)"
    by (simp add: short_signal_def demo_engine_eval)
  have h4: "position demo_engine = None" by (simp add: demo_engine_eval)
  from rejected_operations_are_noops
    [of long_engine long_signal 5 "long_signal\<lparr>sig_stop_loss := 3100\<rparr>" demo_engine 0
        "short_signal\<lparr>sig_stop_loss := 90\<rparr>" demo_engine 0 demo_engine 3050 1 "''manual''"]
    h1 h2 h3 h4
  show ?thesis by blast
qed

subsection \<open>Round trip without costs\<close>

text \<open>
  C3 (as amended). With slippage 0 and commission 0, a position opened by
  \<^verbatim>\<open>open_position\<close> at entry price \<open>E\<close> with capital \<open>C\<close> has size \<open>C / E\<close>; closed by
  \<^verbatim>\<open>close_position\<close> at exit price \<open>X\<close>, its realized P&L is \<open>C * (X / E - 1)\<close> when it
  is long and \<open>C * (E / X - 1)\<close> when it is short, and the capital after the close is
  \<open>C\<close> plus that P&L.
\<close>

theorem round_trip_pnl_zero_cost:
  assumes "slippage e = 0" and "commission e = 0"
    and "open_position e sg t0 = Inr (Some p, e1)"
    and "close_position e1 x t1 r = Inr (Some td, e2)"
  shows "position_size p = capital e / sig_entry_price sg
       \<and> pnl td = (if sig_type sg = ''long'' then capital e * (x / sig_entry_price sg - 1)
                   else capital e * (sig_entry_price sg / x - 1))
       \<and> capital e2 = capital e + pnl td"
proof -
  note o = open_position_SomeD[OF assms(3)]
  from assms(4) obtain q where q: "position e1 = Some q" and
    c: "exit_price td = (if ptype q = ''long'' then x * (1 - slippage e1) else x * (1 + slippage e1))"
     "return_multiplier td = (if ptype q = ''long'' then exit_price td / adj_entry_price q
                              else adj_entry_price q / exit_price td)"
     "exit_capital td = entry_capital q * return_multiplier td
                        - position_size q * exit_price td * commission e1"
     "pnl td = exit_capital td - entry_capital q"
     "e2 = e1\<lparr>capital := exit_capital td, trades := trades e1 @ [td], position := None\<rparr>"
    by (rule close_position_SomeD)
  have qp: "q = p" using q o(9) by simp
  have s1: "slippage e1 = 0" "commission e1 = 0" using o(9) assms(1,2) by simp_all
  have adj: "adj_entry_price p = sig_entry_price sg" using o(3) assms(1) by simp
  show ?thesis
    using o(4,5,6) c qp s1 adj by (simp add: algebra_simps)
qed

text \<open>
  The example of the claim: long at entry 3000, stop 2950, capital 100, closed manually
  at 3050.
\<close>

theorem round_trip_pnl_zero_cost_witness:
  "\<exists>p e1 td e2.
     open_position zero_cost_engine long_signal 0 = Inr (Some p, e1)
     \<and> close_position e1 3050 1 ''manual'' = Inr (Some td, e2)
     \<and> position_size p = 100 / 3000
     \<and> pnl td = 100 * (3050 / 3000 - 1)
     \<and> capital e2 = 100 + 100 * (3050 / 3000 - 1)"
proof -
  have z: "slippage zero_cost_engine = 0" "commission zero_cost_engine = 0"
    "capital zero_cost_engine = 100"
    by (simp_all add: engine_defs)
  obtain p e1 where o: "open_position zero_cost_engine long_signal 0 = Inr (Some p, e1)"
    by (simp add: open_position_def engine_defs long_signal_def Let_def)
  obtain td e2 where c: "close_position e1 3050 1 ''manual'' = Inr (Some td, e2)"
    using o by (auto simp: open_position_def close_position_def engine_defs long_signal_def Let_def)
  from round_trip_pnl_zero_cost[OF z(1,2) o c] z(3) o c show ?thesis
    by (simp add: long_signal_def)
qed

text \<open>
  The claim as stated gives \<open>C * (1 - X / E)\<close> for a short position. A short opened at
  100 with capital 100 and closed at 50 realizes 100, not \<open>100 * (1 - 50 / 100) = 50\<close>.
\<close>

theorem short_pnl_counterexample:
  "result_pnl (round_trip zero_cost_engine short_signal 0 50 1 ''manual'') = Some 100
   \<and> capital zero_cost_engine * (1 - 50 / sig_entry_price short_signal) = 50
   \<and> slippage zero_cost_engine = 0 \<and> commission zero_cost_engine = 0"
  by (simp add: result_pnl_def round_trip_def open_position_def close_position_def engine_defs
      short_signal_def Let_def position.extend_def)

subsection \<open>The trailing stop\<close>

lemma update_position_long_step:
  assumes "position e = Some p" "ptype p = ''long''" "update_position e cp ts = Inr (None, e')"
  shows "position e' = Some (p\<lparr>stop_loss :=
           (if cp * (1 - trailing_stop_pct p) > stop_loss p then cp * (1 - trailing_stop_pct p)
            else stop_loss p)\<rparr>)"
  using assms
  by (auto simp: update_position_def Let_def close_position_def split: if_splits)

lemma update_position_short_step:
  assumes "position e = Some p" "ptype p \<noteq> ''long''" "update_position e cp ts = Inr (None, e')"
  shows "position e' = Some (p\<lparr>stop_loss :=
           (if cp * (1 + trailing_stop_pct p) < stop_loss p then cp * (1 + trailing_stop_pct p)
            else stop_loss p)\<rparr>)"
  using assms
  by (auto simp: update_position_def Let_def close_position_def split: if_splits)

lemma update_run_ConsD:
  assumes "update_run e ((cp, ts) # ticks) = Some es"
  obtains e' es' where "update_position e cp ts = Inr (None, e')"
    and "update_run e' ticks = Some es'" and "es = e' # es'"
  using assms by (auto split: sum.splits option.splits prod.splits)

lemma update_run_length: "update_run e ticks = Some es \<Longrightarrow> length es = length ticks"
proof (induction ticks arbitrary: e es)
  case Nil
  then show ?case by simp
next
  case (Cons a ticks)
  obtain cp ts where a: "a = (cp, ts)" by (cases a)
  from Cons.prems obtain e' es' where "update_run e' ticks = Some es'" and "es = e' # es'"
    unfolding a by (rule update_run_ConsD)
  with Cons.IH show ?case by simp
qed

lemma stops_Cons: "position e = Some p \<Longrightarrow> stops (e # es) = stop_loss p # stops es"
  by (simp add: stops_def List.map_filter_simps)

lemma update_run_long:
  "position e = Some p \<Longrightarrow> ptype p = ''long'' \<Longrightarrow> update_run e ticks = Some es \<Longrightarrow>
   length (stops es) = length es \<and> sorted (stop_loss p # stops es)"
proof (induction ticks arbitrary: e p es)
  case Nil
  then show ?case by (simp add: stops_def List.map_filter_simps)
next
  case (Cons a ticks)
  obtain cp ts where a: "a = (cp, ts)" by (cases a)
  from Cons.prems(3) obtain e' es' where
    u: "update_position e cp ts = Inr (None, e')" and r: "update_run e' ticks = Some es'"
    and es: "es = e' # es'"
    unfolding a by (rule update_run_ConsD)
  let ?s = "if cp * (1 - trailing_stop_pct p) > stop_loss p then cp * (1 - trailing_stop_pct p)
            else stop_loss p"
  have p': "position e' = Some (p\<lparr>stop_loss := ?s\<rparr>)"
    using update_position_long_step[OF Cons.prems(1,2) u] .
  have "ptype (p\<lparr>stop_loss := ?s\<rparr>) = ''long''" using Cons.prems(2) by simp
  from Cons.IH[OF p' this r]
  have ih: "length (stops es') = length es'" "sorted (?s # stops es')" by simp_all
  have st: "stops es = ?s # stops es'" using es stops_Cons[OF p'] by simp
  have le: "stop_loss p \<le> ?s" by simp
  have "sorted (stop_loss p # ?s # stops es')"
    using ih(2) le by (simp only: sorted_wrt.simps sorted2) auto
  with ih(1) st es show ?case by simp
qed

lemma update_run_short:
  "position e = Some p \<Longrightarrow> ptype p \<noteq> ''long'' \<Longrightarrow> update_run e ticks = Some es \<Longrightarrow>
   length (stops es) = length es \<and> sorted (rev (stop_loss p # stops es))"
proof (induction ticks arbitrary: e p es)
  case Nil
  then show ?case by (simp add: stops_def List.map_filter_simps)
next
  case (Cons a ticks)
  obtain cp ts where a: "a = (cp, ts)" by (cases a)
  from Cons.prems(3) obtain e' es' where
    u: "update_position e cp ts = Inr (None, e')" and r: "update_run e' ticks = Some es'"
    and es: "es = e' # es'"
    unfolding a by (rule update_run_ConsD)
  let ?s = "if cp * (1 + trailing_stop_pct p) < stop_loss p then cp * (1 + trailing_stop_pct p)
            else stop_loss p"
  have p': "position e' = Some (p\<lparr>stop_loss := ?s\<rparr>)"
    using update_position_short_step[OF Cons.prems(1,2) u] .
  have "ptype (p\<lparr>stop_loss := ?s\<rparr>) \<noteq> ''long''" using Cons.prems(2) by simp
  from Cons.IH[OF p' this r]
  have ih: "length (stops es') = length es'" "sorted (rev (?s # stops es'))" by simp_all
  have st: "stops es = ?s # stops es'" using es stops_Cons[OF p'] by simp
  have le: "?s \<le> stop_loss p" by simp
  have "\<forall>v \<in> set (?s # stops es'). v \<le> ?s"
    using ih(2) by (simp add: sorted_append)
  then have "\<forall>v \<in> set (?s # stops es'). v \<le> stop_loss p"
    using le by (meson order_trans)
  then have "sorted (rev (stop_loss p # ?s # stops es'))"
    using ih(2) by (simp add: sorted_append)
  with ih(1) st es show ?case by simp
qed

text \<open>
  C4. While successive \<^verbatim>\<open>update_position\<close> calls do not close the position, the stop of
  a long position never decreases and the stop of a short position never increases. A
  call that does not close a long position stores \<open>price * (1 - trailing fraction)\<close> as
  the stop when that is strictly above the stop held, and keeps the stop otherwise; for a
  short position it stores \<open>price * (1 + trailing fraction)\<close> when that is strictly below.
\<close>

theorem trailing_stop_monotone:
  assumes "position e = Some p" and "update_run e ticks = Some es"
  shows "length (stops es) = length es
       \<and> (ptype p = ''long'' \<longrightarrow> sorted (stop_loss p # stops es))
       \<and> (ptype p \<noteq> ''long'' \<longrightarrow> sorted (rev (stop_loss p # stops es)))
       \<and> (\<forall>cp ts e'. update_position e cp ts = Inr (None, e') \<longrightarrow>
            position e' = Some (p\<lparr>stop_loss :=
              (if ptype p = ''long''
               then (if cp * (1 - trailing_stop_pct p) > stop_loss p
                     then cp * (1 - trailing_stop_pct p) else stop_loss p)
               else (if cp * (1 + trailing_stop_pct p) < stop_loss p
                     then cp * (1 + trailing_stop_pct p) else stop_loss p))\<rparr>))"
proof (cases "ptype p = ''long''")
  case True
  from update_run_long[OF assms(1) True assms(2)] update_position_long_step[OF assms(1) True] True
  show ?thesis by simp
next
  case False
  from update_run_short[OF assms(1) False assms(2)] update_position_short_step[OF assms(1) False]
    False
  show ?thesis by simp
qed

theorem trailing_stop_monotone_witness:
  "(\<exists>p es. position long_engine = Some p \<and> ptype p = ''long''
       \<and> update_run long_engine [(3050, 1), (3040, 2), (3100, 3)] = Some es
       \<and> length (stops es) = 3 \<and> sorted (stop_loss p # stops es))
   \<and> (\<exists>p es. position short_engine = Some p \<and> ptype p \<noteq> ''long''
       \<and> update_run short_engine [(95, 1), (97, 2), (90, 3)] = Some es
       \<and> length (stops es) = 3 \<and> sorted (rev (stop_loss p # stops es)))"
proof -
  obtain p where p: "position long_engine = Some p" "ptype p = ''long''"
    using long_engine_eval by auto
  obtain es where es: "update_run long_engine [(3050, 1), (3040, 2), (3100, 3)] = Some es"
    by (simp add: long_engine_def engine_after_open_def open_position_def demo_engine_eval
        long_signal_def update_position_def Let_def)
  have n: "length es = 3" using update_run_length[OF es] by simp
  obtain q where q: "position short_engine = Some q" "ptype q \<noteq> ''long''"
    using short_engine_eval by auto
  obtain fs where fs: "update_run short_engine [(95, 1), (97, 2), (90, 3)] = Some fs"
    by (simp add: short_engine_def engine_after_open_def open_position_def demo_engine_eval
        short_signal_def update_position_def Let_def)
  have m: "length fs = 3" using update_run_length[OF fs] by simp
  from trailing_stop_monotone[OF p(1) es] trailing_stop_monotone[OF q(1) fs] p q es fs n m
  show ?thesis by simp
qed

subsection \<open>The equity filter\<close>

lemma length_ewm_from: "length (ewm_from a y xs) = length xs"
  by (induction xs arbitrary: y) (simp_all add: Let_def)

lemma ewm_from_0: "xs \<noteq> [] \<Longrightarrow> ewm_from a y xs ! 0 = (1 - a) * y + a * xs ! 0"
  by (cases xs) (simp_all add: Let_def)

lemma ewm_from_Suc:
  "Suc t < length xs \<Longrightarrow>
   ewm_from a y xs ! Suc t = (1 - a) * ewm_from a y xs ! t + a * xs ! Suc t"
proof (induction xs arbitrary: y t)
  case Nil
  then show ?case by simp
next
  case (Cons x xs)
  show ?case
  proof (cases t)
    case 0
    with Cons.prems show ?thesis by (simp add: Let_def ewm_from_0)
  next
    case (Suc k)
    with Cons show ?thesis by (simp add: Let_def)
  qed
qed

lemma ewm_mean_nth:
  "t < length xs \<Longrightarrow> ewm_mean sp xs ! t = ema_rec (2 / (real sp + 1)) xs t"
proof (induction t)
  case 0
  then show ?case by (cases xs) (simp_all add: ewm_mean_def)
next
  case (Suc t)
  then obtain x rest where xs: "xs = x # rest" by (cases xs) auto
  from Suc have ih: "ewm_mean sp xs ! t = ema_rec (2 / (real sp + 1)) xs t" by simp
  show ?case
  proof (cases t)
    case 0
    with Suc.prems xs show ?thesis by (simp add: ewm_mean_def ewm_from_0)
  next
    case (Suc k)
    with Suc.prems xs ih show ?thesis
      by (simp add: ewm_mean_def ewm_from_Suc)
  qed
qed

lemma length_ewm_mean: "length (ewm_mean sp xs) = length xs"
  by (cases xs) (simp_all add: ewm_mean_def length_ewm_from)

lemma last_ewm_mean:
  assumes ne: "xs \<noteq> []"
  shows "last (ewm_mean sp xs) = ema_rec (2 / (real sp + 1)) xs (length xs - 1)"
proof -
  from ne have ne': "ewm_mean sp xs \<noteq> []" by (cases xs) (simp_all add: ewm_mean_def)
  have lt: "length xs - 1 < length xs" using ne by (cases xs) simp_all
  have "last (ewm_mean sp xs) = ewm_mean sp xs ! (length xs - 1)"
    using last_conv_nth[OF ne'] by (simp add: length_ewm_mean)
  also have "\<dots> = ema_rec (2 / (real sp + 1)) xs (length xs - 1)"
    by (rule ewm_mean_nth[OF lt])
  finally show ?thesis .
qed

text \<open>
  C5. \<^verbatim>\<open>calculate_ema_200\<close> returns nothing while the equity history has fewer than 200
  points; from 200 points on it returns the unadjusted recursive exponential moving
  average, with \<open>\<alpha> = 2 / 201\<close> (span 200), of the whole history, taken at its last point.
  \<^verbatim>\<open>should_take_trade\<close> stores that value and returns true when it is undefined, and
  otherwise returns whether the current equity (which \<^verbatim>\<open>get_current_equity()\<close> without
  a price gives as the capital) is strictly greater than it.
\<close>

theorem ema_filter_refines_recursive_ema:
  "calculate_ema_200 e =
     (if length (equity_history e) < 200 then None
      else Some (ema_rec (2 / 201) (map snd (equity_history e)) (length (equity_history e) - 1)))
   \<and> should_take_trade e =
       Inr (case calculate_ema_200 e of None \<Rightarrow> True | Some m \<Rightarrow> capital e > m,
            e\<lparr>ema_200 := calculate_ema_200 e\<rparr>)
   \<and> get_current_equity e None = Inr (capital e)"
proof -
  have 1: "calculate_ema_200 e =
     (if length (equity_history e) < 200 then None
      else Some (ema_rec (2 / 201) (map snd (equity_history e)) (length (equity_history e) - 1)))"
  proof (cases "length (equity_history e) < 200")
    case True
    then show ?thesis by (simp add: calculate_ema_200_def)
  next
    case False
    then have "map snd (equity_history e) \<noteq> []" by auto
    from last_ewm_mean[OF this, of EMA_PERIOD] False show ?thesis
      by (simp add: calculate_ema_200_def EMA_PERIOD_def)
  qed
  have 2: "get_current_equity e' None = Inr (capital e')" for e'
    by (simp add: get_current_equity_def split: option.splits)
  have 3: "should_take_trade e =
       Inr (case calculate_ema_200 e of None \<Rightarrow> True | Some m \<Rightarrow> capital e > m,
            e\<lparr>ema_200 := calculate_ema_200 e\<rparr>)"
    by (simp add: should_take_trade_def Let_def 2 split: option.splits)
  from 1 2 3 show ?thesis by blast
qed

theorem ema_filter_refines_recursive_ema_witness:
  "calculate_ema_200 demo_engine = None
   \<and> should_take_trade demo_engine = Inr (True, demo_engine\<lparr>ema_200 := None\<rparr>)
   \<and> calculate_ema_200 full_history_engine
       = Some (ema_rec (2 / 201) (map snd (equity_history full_history_engine)) 199)"
proof -
  have a: "length (equity_history demo_engine) = 0" by (simp add: demo_engine_eval)
  have b: "length (equity_history full_history_engine) = 200"
    by (simp add: full_history_engine_def)
  from ema_filter_refines_recursive_ema[of demo_engine]
    ema_filter_refines_recursive_ema[of full_history_engine] a b
  show ?thesis by simp
qed

subsection \<open>Capital over a round trip\<close>

lemma holding_position:
  assumes "holding e1 e2" and "position e1 = Some p"
  shows "\<exists>s. position e2 = Some (p\<lparr>stop_loss := s\<rparr>)
           \<and> slippage e2 = slippage e1 \<and> commission e2 = commission e1 \<and> trades e2 = trades e1"
  using assms
proof (induction rule: holding.induct)
  case (holding_refl e)
  have "p = p\<lparr>stop_loss := stop_loss p\<rparr>" by simp
  with holding_refl show ?case by metis
next
  case (holding_update e e1 cp ts e2)
  then obtain s where s: "position e1 = Some (p\<lparr>stop_loss := s\<rparr>)" "slippage e1 = slippage e"
    "commission e1 = commission e" "trades e1 = trades e" by auto
  from holding_update.hyps(2) s show ?case
    by (auto simp: update_position_def Let_def close_position_def split: if_splits)
next
  case (holding_record e e1 ts cpo e2)
  then obtain s where s: "position e1 = Some (p\<lparr>stop_loss := s\<rparr>)" "slippage e1 = slippage e"
    "commission e1 = commission e" "trades e1 = trades e" by auto
  from holding_record.hyps(2) s show ?case
    by (auto simp: record_equity_def split: sum.splits)
next
  case (holding_gate e e1 b e2)
  then obtain s where s: "position e1 = Some (p\<lparr>stop_loss := s\<rparr>)" "slippage e1 = slippage e"
    "commission e1 = commission e" "trades e1 = trades e" by auto
  from holding_gate.hyps(2) s show ?case
    by (auto simp: should_take_trade_def Let_def split: sum.splits option.splits)
next
  case (holding_refused e e1 sg ts e2)
  then obtain s where s: "position e1 = Some (p\<lparr>stop_loss := s\<rparr>)" "slippage e1 = slippage e"
    "commission e1 = commission e" "trades e1 = trades e" by auto
  from holding_refused.hyps(2) s show ?case
    by (auto simp: open_position_def Let_def split: if_splits)
qed

text \<open>
  C8. For a position opened by \<^verbatim>\<open>open_position\<close> and closed by \<^verbatim>\<open>close_position\<close>,
  with no position opened or closed in between, the capital after the close is the
  capital before the open (the entry capital, before the entry commission was deducted)
  times the return multiplier, minus the exit commission. The entry commission, the
  capital times the commission rate, is deducted from the capital at the open, yet the
  close gives the same trade and the same engine whatever capital the engine holds by
  then; the trade's commission is the sum of the entry and the exit commission.
\<close>

theorem entry_commission_not_in_final_capital:
  assumes op: "open_position e sg t0 = Inr (Some p, e1)"
    and hold: "holding e1 e2"
    and cl: "close_position e2 x t1 r = Inr (Some td, e3)"
  shows "entry_capital td = capital e
       \<and> capital e1 = capital e - entry_commission td
       \<and> entry_commission td = capital e * commission e
       \<and> capital e3 = capital e * return_multiplier td
                       - position_size td * exit_price td * commission e
       \<and> trade_commission td
           = entry_commission td + position_size td * exit_price td * commission e
       \<and> (\<forall>c. close_position (e2\<lparr>capital := c\<rparr>) x t1 r = Inr (Some td, e3))"
proof -
  note o = open_position_SomeD[OF op]
  have p1: "position e1 = Some p" "commission e1 = commission e" using o(9) by simp_all
  from holding_position[OF hold p1(1)] obtain s where
    h: "position e2 = Some (p\<lparr>stop_loss := s\<rparr>)" "commission e2 = commission e1" by auto
  from cl obtain q where q: "position e2 = Some q"
     "ptype td = ptype q \<and> entry_price td = entry_price q
         \<and> adj_entry_price td = adj_entry_price q
         \<and> entry_time td = entry_time q \<and> entry_capital td = entry_capital q
         \<and> position_size td = position_size q \<and> stop_loss td = stop_loss q
         \<and> sl_percentage td = sl_percentage q \<and> trailing_stop_pct td = trailing_stop_pct q
         \<and> entry_commission td = entry_commission q"
     "exit_capital td = entry_capital q * return_multiplier td
                        - position_size q * exit_price td * commission e2"
     "trade_commission td = entry_commission q + position_size q * exit_price td * commission e2"
     "e3 = e2\<lparr>capital := exit_capital td, trades := trades e2 @ [td], position := None\<rparr>"
    by (rule close_position_SomeD)
  have q': "q = p\<lparr>stop_loss := s\<rparr>" using q(1) h(1) by simp
  have f: "entry_capital td = entry_capital p" "position_size td = position_size p"
    "entry_commission td = entry_commission p"
    using q(2) q' by auto
  have ec: "entry_commission p = capital e * commission e" using o(2,6,7) by simp
  have indep: "\<forall>c. close_position (e2\<lparr>capital := c\<rparr>) x t1 r = Inr (Some td, e3)"
    using close_capital_irrelevant[of e2] h(1) cl by simp
  have "capital e3 = capital e * return_multiplier td
                     - position_size td * exit_price td * commission e"
    using o(5) f q(3,5) q' h(2) p1(2) by simp
  moreover have "trade_commission td
                   = entry_commission td + position_size td * exit_price td * commission e"
    using f q(4) q' h(2) p1(2) by simp
  moreover have "capital e1 = capital e - entry_commission td"
    using o(9) f by simp
  ultimately show ?thesis
    using o(5) f ec indep by simp
qed

theorem entry_commission_not_in_final_capital_witness:
  "\<exists>e2 td e3.
     open_position demo_engine long_signal 0 = Inr (position long_engine, long_engine)
     \<and> holding long_engine e2
     \<and> close_position e2 3050 3 ''manual'' = Inr (Some td, e3)
     \<and> capital long_engine = 100 - 6 / 100
     \<and> entry_commission td = 6 / 100
     \<and> capital e3 = 100 * return_multiplier td - position_size td * exit_price td * (6 / 10000)
     \<and> trade_commission td = 6 / 100 + position_size td * exit_price td * (6 / 10000)
     \<and> close_position (e2\<lparr>capital := 0\<rparr>) 3050 3 ''manual'' = Inr (Some td, e3)"
proof -
  obtain p where p: "position long_engine = Some p" using long_engine_eval by auto
  have op: "open_position demo_engine long_signal 0 = Inr (Some p, long_engine)"
    using long_engine_eval p by simp
  obtain e1 where u: "update_position long_engine 3050 1 = Inr (None, e1)"
    by (simp add: long_engine_def engine_after_open_def open_position_def demo_engine_eval
        long_signal_def update_position_def Let_def)
  obtain e2 where rc: "record_equity e1 2 (Some 3050) = Inr e2"
    using u
    by (auto simp: long_engine_def engine_after_open_def open_position_def demo_engine_eval
        long_signal_def update_position_def record_equity_def get_current_equity_def Let_def)
  have hold: "holding long_engine e2"
    by (rule holding_record[OF holding_update[OF holding_refl u] rc])
  from holding_position[OF hold p] obtain s where
    s: "position e2 = Some (p\<lparr>stop_loss := s\<rparr>)" by auto
  have pf: "ptype p = ''long''" "adj_entry_price p \<noteq> 0" "entry_capital p \<noteq> 0"
    using open_position_SomeD(2,4,5)[OF op] by (simp_all add: long_signal_def demo_engine_eval)
  obtain td e3 where cl: "close_position e2 3050 3 ''manual'' = Inr (Some td, e3)"
    using s pf by (simp add: close_position_def Let_def)
  have c0: "capital demo_engine = 100" "commission demo_engine = 6 / 10000"
    by (simp_all add: demo_engine_eval)
  from entry_commission_not_in_final_capital[OF op hold cl] c0 op p hold cl long_engine_eval
  show ?thesis
    by (intro exI[of _ e2] exI[of _ td] exI[of _ e3]) simp
qed

subsection \<open>The exit price of a stop\<close>

text \<open>
  C10. \<^verbatim>\<open>update_position\<close> first trails the stop and then tests the exit against the
  stop it has just stored (long: price at or below it, short: price at or above it).
  When the test fires, it closes through \<^verbatim>\<open>close_position\<close> with that stop, not the
  current price, as the exit price and \<^verbatim>\<open>stop_loss\<close> as the reason; the exit price of
  the trade is the stop adjusted for exit slippage.
\<close>

theorem stop_exit_at_stop_price:
  assumes "position e = Some p"
    and "trailed = (if ptype p = ''long''
                    then (if cp * (1 - trailing_stop_pct p) > stop_loss p
                          then cp * (1 - trailing_stop_pct p) else stop_loss p)
                    else (if cp * (1 + trailing_stop_pct p) < stop_loss p
                          then cp * (1 + trailing_stop_pct p) else stop_loss p))"
    and "fires = (if ptype p = ''long'' then cp \<le> trailed else cp \<ge> trailed)"
  shows "update_position e cp ts =
           (if fires
            then close_position (e\<lparr>position := Some (p\<lparr>stop_loss := trailed\<rparr>)\<rparr>) trailed ts ''stop_loss''
            else Inr (None, e\<lparr>position := Some (p\<lparr>stop_loss := trailed\<rparr>)\<rparr>))
       \<and> (\<forall>td e'. update_position e cp ts = Inr (Some td, e') \<longrightarrow>
             fires \<and> exit_reason td = ''stop_loss'' \<and> stop_loss td = trailed
             \<and> exit_price td = (if ptype p = ''long'' then trailed * (1 - slippage e)
                                 else trailed * (1 + slippage e)))"
  using assms
  by (auto simp: update_position_def Let_def close_position_def position.extend_def
      split: if_splits)

theorem stop_exit_at_stop_price_witness:
  "\<exists>td e'. update_position long_engine 2900 1 = Inr (Some td, e')
     \<and> exit_price td = 2950 * (1 - 5 / 10000) \<and> exit_reason td = ''stop_loss''
     \<and> stop_loss td = 2950"
proof -
  obtain p where p: "position long_engine = Some p" "ptype p = ''long''" "stop_loss p = 2950"
    and tp: "trailing_stop_pct p = 103 / 8004"
    using long_engine_eval by auto
  have tr: "2950 = (if ptype p = ''long''
                    then (if 2900 * (1 - trailing_stop_pct p) > stop_loss p
                          then 2900 * (1 - trailing_stop_pct p) else stop_loss p)
                    else (if 2900 * (1 + trailing_stop_pct p) < stop_loss p
                          then 2900 * (1 + trailing_stop_pct p) else stop_loss p))"
    using p tp by simp
  have fi: "True = (if ptype p = ''long'' then (2900::real) \<le> 2950 else 2900 \<ge> 2950)"
    using p by simp
  obtain td e' where u: "update_position long_engine 2900 1 = Inr (Some td, e')"
    by (simp add: long_engine_def engine_after_open_def open_position_def demo_engine_eval
        long_signal_def update_position_def close_position_def Let_def)
  from stop_exit_at_stop_price[OF p(1) tr fi, of 1] u p long_engine_eval
  show ?thesis by simp
qed

section \<open>Properties of the strategy\<close>

subsection \<open>Causal column operations\<close>

lemma causalI:
  assumes "\<And>xs. length (F xs) = length xs"
    and "\<And>xs ys. take (length xs) (F (xs @ ys)) = F xs"
  shows "causal F"
  using assms by (simp add: causal_def)

lemma causal_length: "causal F \<Longrightarrow> length (F xs) = length xs"
  by (simp add: causal_def)

lemma causal_take: "causal F \<Longrightarrow> take (length xs) (F (xs @ ys)) = F xs"
  by (simp add: causal_def)

lemma causal_take_le:
  assumes "causal F" and "n \<le> length xs"
  shows "take n (F (xs @ ys)) = take n (F xs)"
proof -
  have "take n (F (xs @ ys)) = take n (take (length xs) (F (xs @ ys)))"
    using assms(2) by (simp add: min_def)
  then show ?thesis using causal_take[OF assms(1)] by simp
qed

lemma causal_nth:
  assumes "causal F" and "i < length xs"
  shows "F (xs @ ys) ! i = F xs ! i"
proof -
  have "F (xs @ ys) ! i = take (length xs) (F (xs @ ys)) ! i" using assms(2) by simp
  then show ?thesis using causal_take[OF assms(1)] by simp
qed

lemma causal_map: "causal (map f)"
  by (rule causalI) simp_all

lemma causal_map_comp: "causal F \<Longrightarrow> causal (\<lambda>xs. map f (F xs))"
  by (rule causalI) (simp_all add: causal_length causal_take take_map)

lemma causal_map2:
  assumes "causal F" and "causal G"
  shows "causal (\<lambda>xs. map2 f (F xs) (G xs))"
proof (rule causalI)
  fix xs show "length (map2 f (F xs) (G xs)) = length xs"
    using assms by (simp add: causal_length)
next
  fix xs ys
  show "take (length xs) (map2 f (F (xs @ ys)) (G (xs @ ys))) = map2 f (F xs) (G xs)"
    using assms by (simp add: take_map take_zip causal_take)
qed

lemma length_shift: "length (shift k xs) = length xs"
  by (simp add: shift_def)

lemma shift_take: "n \<le> length xs \<Longrightarrow> take n (shift k xs) = shift k (take n xs)"
  by (simp add: shift_def min_def)


lemma causal_shift:
  assumes "causal F"
  shows "causal (\<lambda>xs. shift k (F xs))"
proof (rule causalI)
  fix xs show "length (shift k (F xs)) = length xs"
    using assms by (simp add: length_shift causal_length)
next
  fix xs ys
  have "length xs \<le> length (F (xs @ ys))" using assms by (simp add: causal_length)
  then have "take (length xs) (shift k (F (xs @ ys))) = shift k (take (length xs) (F (xs @ ys)))"
    by (rule shift_take)
  then show "take (length xs) (shift k (F (xs @ ys))) = shift k (F xs)"
    using assms by (simp add: causal_take)
qed

lemma rolling_mean_nth:
  "i < length xs \<Longrightarrow> rolling_mean w xs ! i =
     (if w = 0 \<or> Suc i < w then None
      else (case those (drop (Suc i - w) (take (Suc i) xs)) of
              None \<Rightarrow> None
            | Some vs \<Rightarrow> Some (sum_list vs / real w)))"
  by (simp add: rolling_mean_def)

lemma length_rolling_mean: "length (rolling_mean w xs) = length xs"
  by (simp add: rolling_mean_def)

lemma expanding_apply_nth:
  "i < length xs \<Longrightarrow> expanding_apply f xs ! i =
     (let win = take (Suc i) xs in if list_ex (\<lambda>v. v \<noteq> None) win then f win else None)"
  by (simp add: expanding_apply_def)

lemma length_expanding_apply: "length (expanding_apply f xs) = length xs"
  by (simp add: expanding_apply_def)

lemma causal_rolling_mean:
  assumes "causal F"
  shows "causal (\<lambda>xs. rolling_mean w (F xs))"
proof (rule causalI)
  fix xs show "length (rolling_mean w (F xs)) = length xs"
    using assms by (simp add: length_rolling_mean causal_length)
next
  fix xs ys
  show "take (length xs) (rolling_mean w (F (xs @ ys))) = rolling_mean w (F xs)"
  proof (rule nth_equalityI)
    show "length (take (length xs) (rolling_mean w (F (xs @ ys)))) = length (rolling_mean w (F xs))"
      using assms by (simp add: length_rolling_mean causal_length)
  next
    fix i assume "i < length (take (length xs) (rolling_mean w (F (xs @ ys))))"
    then have i: "i < length xs" by simp
    then have "take (Suc i) (F (xs @ ys)) = take (Suc i) (F xs)"
      using causal_take_le[OF assms, of "Suc i" xs ys] by simp
    with i show "take (length xs) (rolling_mean w (F (xs @ ys))) ! i = rolling_mean w (F xs) ! i"
      using assms by (simp add: rolling_mean_nth causal_length)
  qed
qed

lemma causal_expanding_apply:
  assumes "causal F"
  shows "causal (\<lambda>xs. expanding_apply f (F xs))"
proof (rule causalI)
  fix xs show "length (expanding_apply f (F xs)) = length xs"
    using assms by (simp add: length_expanding_apply causal_length)
next
  fix xs ys
  show "take (length xs) (expanding_apply f (F (xs @ ys))) = expanding_apply f (F xs)"
  proof (rule nth_equalityI)
    show "length (take (length xs) (expanding_apply f (F (xs @ ys)))) = length (expanding_apply f (F xs))"
      using assms by (simp add: length_expanding_apply causal_length)
  next
    fix i assume "i < length (take (length xs) (expanding_apply f (F (xs @ ys))))"
    then have i: "i < length xs" by simp
    then have "take (Suc i) (F (xs @ ys)) = take (Suc i) (F xs)"
      using causal_take_le[OF assms, of "Suc i" xs ys] by simp
    with i show "take (length xs) (expanding_apply f (F (xs @ ys))) ! i = expanding_apply f (F xs) ! i"
      using assms by (simp add: expanding_apply_nth causal_length)
  qed
qed

lemma causal_pct_change_over:
  assumes "causal F"
  shows "causal (\<lambda>xs. pct_change_over k (F xs))"
  unfolding pct_change_over_def
  by (intro causal_map_comp causal_map2 causal_shift assms)

lemma causal_true_range:
  assumes "causal H" and "causal L" and "causal C"
  shows "causal (\<lambda>xs. true_range (H xs) (L xs) (C xs))"
  unfolding true_range_def
  by (intro causal_map_comp causal_map2 causal_shift assms)

lemma length_calculate_indicators: "length (calculate_indicators s df) = length df"
  by (simp add: calculate_indicators_def Let_def)

lemma calculate_indicators_append:
  "take (length df) (calculate_indicators s (df @ ext)) = calculate_indicators s df"
proof (rule nth_equalityI)
  show "length (take (length df) (calculate_indicators s (df @ ext))) = length (calculate_indicators s df)"
    by (simp add: calculate_indicators_def Let_def)
next
  fix i assume "i < length (take (length df) (calculate_indicators s (df @ ext)))"
  then have i: "i < length df" by (simp add: calculate_indicators_def Let_def)
  note c = causal_map causal_shift causal_rolling_mean causal_expanding_apply
    causal_pct_change_over causal_true_range
  have pc: "pct_change_over 4 (map (Some \<circ> c_open) (df @ ext)) ! i = pct_change_over 4 (map (Some \<circ> c_open) df) ! i"
    by (rule causal_nth[OF _ i]) (intro c)
  have vma: "shift 1 (rolling_mean 20 (map (Some \<circ> c_volume) (df @ ext))) ! i = shift 1 (rolling_mean 20 (map (Some \<circ> c_volume) df)) ! i"
    by (rule causal_nth[OF _ i]) (intro c)
  have vp: "expanding_apply calc_volume_percentile (map (Some \<circ> c_volume) (df @ ext)) ! i = expanding_apply calc_volume_percentile (map (Some \<circ> c_volume) df) ! i"
    by (rule causal_nth[OF _ i]) (intro c)
  have sma: "shift 1 (rolling_mean w (map (Some \<circ> c_close) (df @ ext))) ! i = shift 1 (rolling_mean w (map (Some \<circ> c_close) df)) ! i" for w
    by (rule causal_nth[OF _ i]) (intro c)
  have tr: "true_range (map (Some \<circ> c_high) (df @ ext)) (map (Some \<circ> c_low) (df @ ext)) (map (Some \<circ> c_close) (df @ ext)) ! i
          = true_range (map (Some \<circ> c_high) df) (map (Some \<circ> c_low) df) (map (Some \<circ> c_close) df) ! i"
    by (rule causal_nth[OF _ i]) (intro c)
  have atr: "shift 1 (rolling_mean 14 (true_range (map (Some \<circ> c_high) (df @ ext)) (map (Some \<circ> c_low) (df @ ext)) (map (Some \<circ> c_close) (df @ ext)))) ! i
          = shift 1 (rolling_mean 14 (true_range (map (Some \<circ> c_high) df) (map (Some \<circ> c_low) df) (map (Some \<circ> c_close) df))) ! i"
    by (rule causal_nth[OF _ i]) (intro c)
  have avg: "expanding_apply expanding_prior_mean (shift 1 (rolling_mean 14 (true_range (map (Some \<circ> c_high) (df @ ext)) (map (Some \<circ> c_low) (df @ ext)) (map (Some \<circ> c_close) (df @ ext))))) ! i
          = expanding_apply expanding_prior_mean (shift 1 (rolling_mean 14 (true_range (map (Some \<circ> c_high) df) (map (Some \<circ> c_low) df) (map (Some \<circ> c_close) df)))) ! i"
    by (rule causal_nth[OF _ i]) (intro c)
  have roc: "pct_change_over 10 (map (Some \<circ> c_close) (df @ ext)) ! i = pct_change_over 10 (map (Some \<circ> c_close) df) ! i"
    by (rule causal_nth[OF _ i]) (intro c)
  have row: "(df @ ext) ! i = df ! i" using i by (simp add: nth_append)
  have "calculate_indicators s (df @ ext) ! i = calculate_indicators s df ! i"
    using i unfolding calculate_indicators_def Let_def
    by (simp only: nth_map length_upt nth_upt add_0 length_append trans_less_add1 minus_nat.diff_0 pc vma vp sma tr atr avg roc row)
  then show "take (length df) (calculate_indicators s (df @ ext)) ! i = calculate_indicators s df ! i"
    using i by simp
qed

text \<open>
  C1. Every row that \<^verbatim>\<open>calculate_indicators\<close> computes for a candle sequence, with all
  its indicators (percent change, volume moving average, volume percentile, sma20, sma50,
  true range, ATR, expanding ATR baseline, momentum), is the row it computes after any
  further candles have been appended: the result for the longer sequence, cut to the
  length of the shorter, is the result for the shorter. Hence recomputing on each prefix
  of a sequence gives the rows of the one batch pass.
\<close>

theorem indicators_no_lookahead:
  "take (length df) (calculate_indicators s (df @ ext)) = calculate_indicators s df
   \<and> calculate_indicators s (take n df) = take n (calculate_indicators s df)
   \<and> length (calculate_indicators s df) = length df"
proof -
  have "take (length (take n df)) (calculate_indicators s (take n df @ drop n df))
          = calculate_indicators s (take n df)"
    by (rule calculate_indicators_append)
  then have "calculate_indicators s (take n df) = take (min (length df) n) (calculate_indicators s df)"
    by simp
  also have "\<dots> = take n (calculate_indicators s df)"
    by (cases "n \<le> length df") (simp_all add: min_def length_calculate_indicators)
  finally show ?thesis
    using calculate_indicators_append[of df s ext] length_calculate_indicators[of s df] by simp
qed

theorem indicators_no_lookahead_witness:
  "take (length (ob_candles 34))
     (calculate_indicators default_strategy (ob_candles 34 @ ob_candles 35))
     = calculate_indicators default_strategy (ob_candles 34)
   \<and> calculate_indicators default_strategy (take 20 (ob_candles 34))
     = take 20 (calculate_indicators default_strategy (ob_candles 34))"
  using indicators_no_lookahead[of "ob_candles 34" default_strategy "ob_candles 35" 20]
  by blast

subsection \<open>The expanding ATR baseline\<close>

lemma shift_nth:
  "i < length xs \<Longrightarrow> shift k xs ! i = (if i < k then None else xs ! (i - k))"
  by (simp add: shift_def nth_append)

lemma those_eq_None: "(those xs = None) = (None \<in> set xs)"
  by (induction xs) (auto split: option.splits)

lemma length_true_range:
  "length hs = n \<Longrightarrow> length ls = n \<Longrightarrow> length cs = n \<Longrightarrow> length (true_range hs ls cs) = n"
  by (simp add: true_range_def length_shift)

lemma true_range_defined:
  assumes "k < length df"
  shows "(true_range (map (Some \<circ> c_high) df) (map (Some \<circ> c_low) df) (map (Some \<circ> c_close) df) ! k \<noteq> None) = (1 \<le> k)"
  using assms
  by (simp add: true_range_def length_shift shift_nth lift2_def)

lemma window_all_defined:
  assumes "j < length xs"
  shows "(None \<notin> set (drop a (take (Suc j) xs))) = (\<forall>k. a \<le> k \<and> k \<le> j \<longrightarrow> xs ! k \<noteq> None)"
proof
  assume h: "None \<notin> set (drop a (take (Suc j) xs))"
  show "\<forall>k. a \<le> k \<and> k \<le> j \<longrightarrow> xs ! k \<noteq> None"
  proof (intro allI impI)
    fix k assume k: "a \<le> k \<and> k \<le> j"
    then have lt: "k - a < length (drop a (take (Suc j) xs))" using assms by (simp add: min_def) arith
    have "drop a (take (Suc j) xs) ! (k - a) = xs ! k" using k assms by simp
    then have "xs ! k \<in> set (drop a (take (Suc j) xs))" using nth_mem[OF lt] by simp
    with h show "xs ! k \<noteq> None" by metis
  qed
next
  assume h: "\<forall>k. a \<le> k \<and> k \<le> j \<longrightarrow> xs ! k \<noteq> None"
  show "None \<notin> set (drop a (take (Suc j) xs))"
  proof
    assume "None \<in> set (drop a (take (Suc j) xs))"
    then obtain i where i: "i < length (drop a (take (Suc j) xs))" "drop a (take (Suc j) xs) ! i = None"
      by (auto simp: in_set_conv_nth)
    then have "a + i \<le> j" using assms by simp
    moreover have "xs ! (a + i) = None" using i assms by simp
    ultimately show False using h by (metis le_add1)
  qed
qed

lemma rolling_mean_defined:
  assumes "j < length xs" and "0 < w"
  shows "(rolling_mean w xs ! j \<noteq> None) = (w \<le> Suc j \<and> (\<forall>k. Suc j - w \<le> k \<and> k \<le> j \<longrightarrow> xs ! k \<noteq> None))"
proof (cases "Suc j < w")
  case True
  with assms show ?thesis by (simp add: rolling_mean_nth)
next
  case False
  have "(rolling_mean w xs ! j \<noteq> None) = (None \<notin> set (drop (Suc j - w) (take (Suc j) xs)))"
    using assms False by (simp add: rolling_mean_nth those_eq_None[symmetric] split: option.splits)
  also have "\<dots> = (\<forall>k. Suc j - w \<le> k \<and> k \<le> j \<longrightarrow> xs ! k \<noteq> None)"
    by (rule window_all_defined[OF assms(1)])
  finally show ?thesis using False by simp
qed

lemma length_atr_col: "length (atr_col df) = length df"
  by (simp add: atr_col_def length_shift length_rolling_mean length_true_range)

lemma atr_defined:
  assumes "j < length df"
  shows "(atr_col df ! j \<noteq> None) = (15 \<le> j)"
proof (cases j)
  case 0
  with assms show ?thesis
    by (simp add: atr_col_def shift_nth length_rolling_mean length_true_range)
next
  case (Suc m)
  let ?tr = "true_range (map (Some \<circ> c_high) df) (map (Some \<circ> c_low) df) (map (Some \<circ> c_close) df)"
  have len: "length ?tr = length df" by (simp add: length_true_range)
  have m: "m < length ?tr" using assms Suc len by simp
  have "(atr_col df ! j \<noteq> None) = (rolling_mean 14 ?tr ! m \<noteq> None)"
    using assms Suc by (simp add: atr_col_def shift_nth length_rolling_mean len)
  also have "\<dots> = (14 \<le> Suc m \<and> (\<forall>k. Suc m - 14 \<le> k \<and> k \<le> m \<longrightarrow> ?tr ! k \<noteq> None))"
    by (rule rolling_mean_defined[OF m]) simp
  also have "\<dots> = (14 \<le> Suc m \<and> (\<forall>k. Suc m - 14 \<le> k \<and> k \<le> m \<longrightarrow> 1 \<le> k))"
  proof -
    have "(?tr ! k \<noteq> None) = (1 \<le> k)" if "k \<le> m" for k
      using true_range_defined[of k df] that m len by simp
    then show ?thesis by auto
  qed
  also have "\<dots> = (15 \<le> j)"
  proof
    assume a: "14 \<le> Suc m \<and> (\<forall>k. Suc m - 14 \<le> k \<and> k \<le> m \<longrightarrow> 1 \<le> k)"
    then have "Suc m - 14 \<le> Suc m - 14 \<and> Suc m - 14 \<le> m \<longrightarrow> 1 \<le> Suc m - 14" by blast
    with a have "1 \<le> Suc m - 14" by simp
    with Suc show "15 \<le> j" by simp
  next
    assume "15 \<le> j"
    with Suc show "14 \<le> Suc m \<and> (\<forall>k. Suc m - 14 \<le> k \<and> k \<le> m \<longrightarrow> 1 \<le> k)" by auto
  qed
  finally show ?thesis .
qed
lemma map_filter_id_Nil: "(List.map_filter id xs = []) = (filter (\<lambda>v. v \<noteq> None) xs = [])"
  by (induction xs) (auto simp: List.map_filter_simps split: option.splits)

lemma series_mean_None: "(series_mean xs = None) = (filter (\<lambda>v. v \<noteq> None) xs = [])"
  by (simp add: series_mean_def Let_def map_filter_id_Nil)

lemma list_ex_defined: "list_ex (\<lambda>v. v \<noteq> None) xs = (filter (\<lambda>v. v \<noteq> None) xs \<noteq> [])"
  by (induction xs) auto

lemma expanding_prior_mean_nth:
  assumes "i < length xs"
  shows "expanding_apply expanding_prior_mean xs ! i = series_mean (take i xs)"
proof -
  have bl: "butlast (take (Suc i) xs) = take i xs"
    using assms by (simp add: butlast_take)
  show ?thesis
  proof (cases "list_ex (\<lambda>v. v \<noteq> None) (take (Suc i) xs)")
    case True
    show ?thesis
    proof (cases i)
      case 0
      with assms True show ?thesis
        by (simp add: expanding_apply_nth expanding_prior_mean_def series_mean_def List.map_filter_simps)
    next
      case (Suc k)
      with assms True bl show ?thesis
        by (simp add: expanding_apply_nth expanding_prior_mean_def Let_def)
    qed
  next
    case False
    then have "filter (\<lambda>v. v \<noteq> None) (take (Suc i) xs) = []"
      using list_ex_defined[of "take (Suc i) xs"] by blast
    then have "\<forall>v \<in> set (take (Suc i) xs). v = None" by (simp add: filter_empty_conv)
    moreover have "set (take i xs) \<subseteq> set (take (Suc i) xs)" by (simp add: set_take_subset_set_take)
    ultimately have "filter (\<lambda>v. v \<noteq> None) (take i xs) = []" by (auto simp: filter_empty_conv)
    then have "series_mean (take i xs) = None" by (simp add: series_mean_None)
    with assms False show ?thesis by (simp add: expanding_apply_nth Let_def)
  qed
qed

lemma atr_defined_count:
  "n \<le> length df \<Longrightarrow> length (filter (\<lambda>v. v \<noteq> None) (take n (atr_col df))) = n - 15"
proof (induction n)
  case 0
  then show ?case by simp
next
  case (Suc n)
  then have n: "n < length (atr_col df)" by (simp add: length_atr_col)
  have d: "(atr_col df ! n \<noteq> None) = (15 \<le> n)" using atr_defined[of n df] Suc.prems by simp
  from Suc have ih: "length (filter (\<lambda>v. v \<noteq> None) (take n (atr_col df))) = n - 15" by simp
  show ?case
    using ih d by (simp add: take_Suc_conv_app_nth[OF n]) arith
qed

lemma map_atr_calculate_indicators: "map atr (calculate_indicators s df) = atr_col df"
  by (rule nth_equalityI)
     (simp_all add: calculate_indicators_def Let_def atr_col_def length_shift length_rolling_mean
        length_true_range candle.extend_def)

lemma expanding_avg_atr_calculate_indicators:
  "i < length df \<Longrightarrow>
   expanding_avg_atr (calculate_indicators s df ! i) = expanding_apply expanding_prior_mean (atr_col df) ! i"
  by (simp add: calculate_indicators_def Let_def atr_col_def candle.extend_def)


text \<open>
  C7. The expanding ATR baseline at row \<open>i\<close> is the mean of the ATR values at the rows
  strictly before \<open>i\<close> (NaN cells skipped, and NaN when there is no value), and it is
  undefined exactly while fewer than 2 ATR values exist at the rows up to and including
  \<open>i\<close>.
\<close>

theorem expanding_atr_baseline_is_prior_mean:
  assumes "i < length df"
  shows "expanding_avg_atr (calculate_indicators s df ! i)
           = series_mean (map atr (take i (calculate_indicators s df)))
       \<and> (expanding_avg_atr (calculate_indicators s df ! i) = None)
           = (length (filter (\<lambda>v. v \<noteq> None) (map atr (take (Suc i) (calculate_indicators s df)))) < 2)"
proof -
  have i': "i < length (atr_col df)" using assms by (simp add: length_atr_col)
  have tk: "map atr (take n (calculate_indicators s df)) = take n (atr_col df)" for n
    by (simp add: map_atr_calculate_indicators flip: take_map)
  have 1: "expanding_avg_atr (calculate_indicators s df ! i) = series_mean (take i (atr_col df))"
    using expanding_avg_atr_calculate_indicators[OF assms] expanding_prior_mean_nth[OF i'] by simp
  have "(series_mean (take i (atr_col df)) = None) = (i - 15 = 0)"
    using atr_defined_count[of i df] assms by (simp add: series_mean_None flip: length_0_conv)
  also have "\<dots> = (Suc i - 15 < 2)" by arith
  also have "\<dots> = (length (filter (\<lambda>v. v \<noteq> None) (take (Suc i) (atr_col df))) < 2)"
    using atr_defined_count[of "Suc i" df] assms by simp
  finally show ?thesis using 1 by (simp add: tk)
qed

theorem expanding_atr_baseline_is_prior_mean_witness:
  "expanding_avg_atr (calculate_indicators default_strategy (ob_candles 34) ! 16)
     = series_mean (map atr (take 16 (calculate_indicators default_strategy (ob_candles 34))))
   \<and> (expanding_avg_atr (calculate_indicators default_strategy (ob_candles 34) ! 16) = None)
     = (length (filter (\<lambda>v. v \<noteq> None)
          (map atr (take (Suc 16) (calculate_indicators default_strategy (ob_candles 34))))) < 2)"
proof -
  have h: "16 < length (ob_candles 34)" by (simp add: ob_candles_def)
  from expanding_atr_baseline_is_prior_mean[OF h] show ?thesis .
qed

subsection \<open>The order-block scan\<close>

lemma ob_scan_range:
  assumes "50 \<le> idx"
  shows "py_range_down (idx - 4) (max (idx - 16) (- 1)) = map (\<lambda>k. idx - 4 - int k) [0..<12]"
    and "set (py_range_down (idx - 4) (max (idx - 16) (- 1))) = {idx - 15 .. idx - 4}"
proof -
  have m: "max (idx - 16) (- 1) = idx - 16" using assms by simp
  show 1: "py_range_down (idx - 4) (max (idx - 16) (- 1)) = map (\<lambda>k. idx - 4 - int k) [0..<12]"
    unfolding m by (simp add: py_range_down_def)
  show "set (py_range_down (idx - 4) (max (idx - 16) (- 1))) = {idx - 15 .. idx - 4}"
  proof (rule set_eqI)
    fix j
    show "(j \<in> set (py_range_down (idx - 4) (max (idx - 16) (- 1)))) = (j \<in> {idx - 15 .. idx - 4})"
    proof
      assume "j \<in> set (py_range_down (idx - 4) (max (idx - 16) (- 1)))"
      then obtain k where "k < 12" "j = idx - 4 - int k" unfolding 1 by auto
      then show "j \<in> {idx - 15 .. idx - 4}" by simp
    next
      assume j: "j \<in> {idx - 15 .. idx - 4}"
      then have a: "nat (idx - 4 - j) < 12" by auto
      from j have b: "j = idx - 4 - int (nat (idx - 4 - j))" by auto
      have "idx - 4 - int (nat (idx - 4 - j)) \<in> (\<lambda>k. idx - 4 - int k) ` {0..<12}"
        using a by (intro imageI) simp
      with b show "j \<in> set (py_range_down (idx - 4) (max (idx - 16) (- 1)))"
        unfolding 1 by simp
    qed
  qed
qed

text \<open>
  C2. On a long trigger with every gate passed, the claim has the scan reach from
  \<open>idx - 4\<close> down to \<open>idx - 16\<close> inclusive and find a qualifying order block at
  \<open>idx - 16\<close>. The loop \<^verbatim>\<open>range(idx - 4, max(idx - 16, -1), -1)\<close> stops at \<open>idx - 15\<close>. In
  the frame of 51 candles whose only bearish candle is row 34, with its low 90 below the
  close 150 of row 50, all gates pass and the percent change crosses the sensitivity at
  index 50, yet \<^verbatim>\<open>detect_signal\<close> returns no signal and leaves the strategy as it was.
  With the same candle at row 35 instead, it returns the long signal with stop 90.
\<close>

theorem order_block_at_minus_16_is_missed:
  "py_range_down (50 - 4) (max (50 - 16) (- 1)) = [46, 45, 44, 43, 42, 41, 40, 39, 38, 37, 36, 35]
   \<and> c_close (ob_candles 34 ! 34) < c_open (ob_candles 34 ! 34)
   \<and> c_low (ob_candles 34 ! 34) < c_close (ob_candles 34 ! 50)
   \<and> is_valid_trade_condition default_strategy
        (calculate_indicators default_strategy (ob_candles 34)) 50 ''long''
   \<and> fcmp (<) (pc (calculate_indicators default_strategy (ob_candles 34) ! 49))
        (Some (sensitivity default_strategy))
   \<and> fcmp (\<ge>) (pc (calculate_indicators default_strategy (ob_candles 34) ! 50))
        (Some (sensitivity default_strategy))
   \<and> detect_signal default_strategy (calculate_indicators default_strategy (ob_candles 34)) 50
       = Inr (None, default_strategy)
   \<and> detect_signal default_strategy (calculate_indicators default_strategy (ob_candles 35)) 50
       = Inr (Some \<lparr> sig_type = ''long'', sig_entry_price = 150, sig_stop_loss = 90,
                     sig_timestamp = 50, sig_ob_index = 35 \<rparr>,
              default_strategy\<lparr>last_trade_index := 50\<rparr>)"
proof -
  have 1: "py_range_down (50 - 4) (max (50 - 16) (- 1))
             = [46, 45, 44, 43, 42, 41, 40, 39, 38, 37, 36, 35]"
    by code_simp
  have 2: "c_close (ob_candles 34 ! 34) < c_open (ob_candles 34 ! 34)"
    by code_simp
  have 3: "c_low (ob_candles 34 ! 34) < c_close (ob_candles 34 ! 50)"
    by code_simp
  have 4: "is_valid_trade_condition default_strategy
        (calculate_indicators default_strategy (ob_candles 34)) 50 ''long''"
    by code_simp
  have 5: "fcmp (<) (pc (calculate_indicators default_strategy (ob_candles 34) ! 49))
        (Some (sensitivity default_strategy))"
    by code_simp
  have 6: "fcmp (\<ge>) (pc (calculate_indicators default_strategy (ob_candles 34) ! 50))
        (Some (sensitivity default_strategy))"
    by code_simp
  have 7: "detect_signal default_strategy (calculate_indicators default_strategy (ob_candles 34)) 50
       = Inr (None, default_strategy)"
    by code_simp
  have 8: "detect_signal default_strategy (calculate_indicators default_strategy (ob_candles 35)) 50
       = Inr (Some \<lparr> sig_type = ''long'', sig_entry_price = 150, sig_stop_loss = 90,
                     sig_timestamp = 50, sig_ob_index = 35 \<rparr>,
              default_strategy\<lparr>last_trade_index := 50\<rparr>)"
    by code_simp
  from 1 2 3 4 5 6 7 8 show ?thesis by blast
qed


end
